theory Spec2Isabelle
  imports Main "HOL-Library.Word"
begin

section \<open>Sized integer literals: the compile-time evaluation chain\<close>

text \<open>
  The header \<^verbatim>\<open>SizedIntLiterals.h\<close> defines nine literal operator templates. Each
  receives the characters of a literal as a template parameter pack, computes a 64-bit
  unsigned value from them at compile time, checks it against the maximum of the target
  type with \<^verbatim>\<open>static_assert\<close> and returns it converted to that type.

  The embedding follows the header function by function. A parameter pack of characters
  is a \<^typ>\<open>string\<close>; \<^verbatim>\<open>std::uint64_t\<close> is \<^typ>\<open>64 word\<close>; a translation unit
  that does not compile is the left summand of a sum type.
\<close>

subsection \<open>Values and compile errors\<close>

type_synonym u64 = "64 word"

text \<open>
  The two ways an instantiation of the header's templates can fail to compile: a
  \<^verbatim>\<open>static_assert\<close> whose condition is false (with its message), and the use of
  \<^verbatim>\<open>ParseIntegerValue\<close> on an empty digit pack, for which only the declaration of the
  primary template (line 91) is available.
\<close>

datatype compile_error = static_assert_failed string | incomplete_type

text \<open>The nine target types named in the macro invocations of lines 147 to 155.\<close>

datatype typename =
  uint8_t | uint16_t | uint32_t | uint64_t | int8_t | int16_t | int32_t | int64_t | size_t

text \<open>
  A value together with its C++ type. The payload of a signed type is its two's
  complement representation (read with \<^const>\<open>sint\<close>). The width of \<^verbatim>\<open>size_t\<close> is
  fixed by the platform, not by the header: the functions that depend on it take it as
  the parameter \<open>size_t_bits\<close>, and a \<^verbatim>\<open>size_t\<close> value is a natural number below
  \<open>2 ^ size_t_bits\<close>.
\<close>

datatype cxx_int =
    UInt8 "8 word" | UInt16 "16 word" | UInt32 "32 word" | UInt64 "64 word"
  | Int8 "8 word" | Int16 "16 word" | Int32 "32 word" | Int64 "64 word"
  | SizeT nat

fun type_of :: "cxx_int \<Rightarrow> typename" where
  "type_of (UInt8 w) = uint8_t"
| "type_of (UInt16 w) = uint16_t"
| "type_of (UInt32 w) = uint32_t"
| "type_of (UInt64 w) = uint64_t"
| "type_of (Int8 w) = int8_t"
| "type_of (Int16 w) = int16_t"
| "type_of (Int32 w) = int32_t"
| "type_of (Int64 w) = int64_t"
| "type_of (SizeT w) = size_t"

fun value_of :: "cxx_int \<Rightarrow> int" where
  "value_of (UInt8 w) = uint w"
| "value_of (UInt16 w) = uint w"
| "value_of (UInt32 w) = uint w"
| "value_of (UInt64 w) = uint w"
| "value_of (Int8 w) = sint w"
| "value_of (Int16 w) = sint w"
| "value_of (Int32 w) = sint w"
| "value_of (Int64 w) = sint w"
| "value_of (SizeT w) = int w"

text \<open>
  \<^verbatim>\<open>std::numeric_limits<typename_>::max()\<close>, a value of type \<^verbatim>\<open>typename_\<close>:
  \<open>2 ^ N - 1\<close> for an unsigned type of \<open>N\<close> bits and \<open>2 ^ (N - 1) - 1\<close> for a signed one.
\<close>

fun numeric_limits_max :: "nat \<Rightarrow> typename \<Rightarrow> cxx_int" where
  "numeric_limits_max size_t_bits uint8_t = UInt8 255"
| "numeric_limits_max size_t_bits uint16_t = UInt16 65535"
| "numeric_limits_max size_t_bits uint32_t = UInt32 4294967295"
| "numeric_limits_max size_t_bits uint64_t = UInt64 18446744073709551615"
| "numeric_limits_max size_t_bits int8_t = Int8 127"
| "numeric_limits_max size_t_bits int16_t = Int16 32767"
| "numeric_limits_max size_t_bits int32_t = Int32 2147483647"
| "numeric_limits_max size_t_bits int64_t = Int64 9223372036854775807"
| "numeric_limits_max size_t_bits size_t = SizeT (2 ^ size_t_bits - 1)"

text \<open>
  \<^verbatim>\<open>static_cast<typename_>(kValue)\<close> from \<^verbatim>\<open>std::uint64_t\<close>: the value modulo
  two to the width of the target type, in the target type.
\<close>

fun static_cast :: "nat \<Rightarrow> typename \<Rightarrow> u64 \<Rightarrow> cxx_int" where
  "static_cast size_t_bits uint8_t kValue = UInt8 (ucast kValue)"
| "static_cast size_t_bits uint16_t kValue = UInt16 (ucast kValue)"
| "static_cast size_t_bits uint32_t kValue = UInt32 (ucast kValue)"
| "static_cast size_t_bits uint64_t kValue = UInt64 kValue"
| "static_cast size_t_bits int8_t kValue = Int8 (ucast kValue)"
| "static_cast size_t_bits int16_t kValue = Int16 (ucast kValue)"
| "static_cast size_t_bits int32_t kValue = Int32 (ucast kValue)"
| "static_cast size_t_bits int64_t kValue = Int64 kValue"
| "static_cast size_t_bits size_t kValue = SizeT (unat kValue mod 2 ^ size_t_bits)"

subsection \<open>Arithmetic helpers (lines 64 to 84)\<close>

definition sqrOf :: "u64 \<Rightarrow> u64" where
  "sqrOf v = v * v"

function powerOf :: "u64 \<Rightarrow> u64 \<Rightarrow> u64" where
  "powerOf v n =
     (if n = 0 then 1
      else sqrOf (powerOf v (n div 2)) * (if n mod 2 = 0 then 1 else v))"
  by pat_completeness auto
termination
proof (relation "measure (\<lambda>(v, n). unat n)")
  show "wf (measure (\<lambda>(v :: u64, n :: u64). unat n))"
    by simp
next
  fix v n :: u64
  assume "n \<noteq> 0"
  then have "0 < unat n"
    by (simp add: unat_gt_0)
  then show "((v, n div 2), (v, n)) \<in> measure (\<lambda>(v, n). unat n)"
    by (simp add: unat_div)
qed

declare powerOf.simps [simp del]

text \<open>
  \<^verbatim>\<open>digitToValue\<close>: the comparisons and subtractions are done on the character codes
  promoted to \<^verbatim>\<open>int\<close>, and the result is converted to \<^verbatim>\<open>u64\<close>, so a character below
  \<^verbatim>\<open>'A'\<close> that is not a decimal digit yields a value that wraps around. The characters
  of a literal belong to the basic source character set, whose codes are below 128 and
  do not depend on the signedness of \<^verbatim>\<open>char\<close>.
\<close>

definition digitToValue :: "char \<Rightarrow> u64" where
  "digitToValue kDigit =
     (let k = (of_char kDigit :: int) in
      word_of_int
        (if of_char CHR ''0'' \<le> k \<and> k \<le> of_char CHR ''9'' then k - of_char CHR ''0''
         else if of_char CHR ''a'' \<le> k \<and> k \<le> of_char CHR ''f''
           then k - of_char CHR ''a'' + 10
         else k - of_char CHR ''A'' + 10))"

subsection \<open>The parser (lines 90 to 134)\<close>

text \<open>
  \<^verbatim>\<open>ParseIntegerValue<kRadix, kDigits...>::parse()\<close>. The specialisation for one digit
  is more specialised than the one for a digit followed by a pack, so it is chosen for a
  single digit; no specialisation matches the empty pack.
\<close>

fun ParseIntegerValue :: "u64 \<Rightarrow> string \<Rightarrow> compile_error + u64" where
  "ParseIntegerValue kRadix [] = Inl incomplete_type"
| "ParseIntegerValue kRadix [kDigit] = Inr (digitToValue kDigit)"
| "ParseIntegerValue kRadix (kDigit # kDigits) =
     (case ParseIntegerValue kRadix kDigits of
        Inl e \<Rightarrow> Inl e
      | Inr rest \<Rightarrow>
          Inr (digitToValue kDigit * powerOf kRadix (of_nat (length kDigits)) + rest))"

text \<open>
  \<^verbatim>\<open>ParseBaseUnknown<kDigits...>\<close>: the partial specialisations of lines 116 to 124 in
  the order of partial ordering (the two-character prefixes are more specialised than
  the lone \<^verbatim>\<open>'0'\<close>), then the primary template.
\<close>

fun ParseBaseUnknown :: "string \<Rightarrow> compile_error + u64" where
  "ParseBaseUnknown (c0 # c1 # kDigits) =
     (if c0 = CHR ''0'' \<and> c1 = CHR ''b'' then ParseIntegerValue 2 kDigits
      else if c0 = CHR ''0'' \<and> c1 = CHR ''B'' then ParseIntegerValue 2 kDigits
      else if c0 = CHR ''0'' \<and> c1 = CHR ''x'' then ParseIntegerValue 16 kDigits
      else if c0 = CHR ''0'' \<and> c1 = CHR ''X'' then ParseIntegerValue 16 kDigits
      else if c0 = CHR ''0'' then ParseIntegerValue 8 (c1 # kDigits)
      else ParseIntegerValue 10 (c0 # c1 # kDigits))"
| "ParseBaseUnknown [c0] =
     (if c0 = CHR ''0'' then ParseIntegerValue 8 [] else ParseIntegerValue 10 [c0])"
| "ParseBaseUnknown [] = ParseIntegerValue 10 []"

definition createValue :: "string \<Rightarrow> compile_error + u64" where
  "createValue kDigits =
     (if length kDigits > 1 then ParseBaseUnknown kDigits
      else ParseIntegerValue 10 kDigits)"

subsection \<open>Range check and literal operators (lines 139 to 178)\<close>

text \<open>The message each invocation of \<^verbatim>\<open>SCW_DEFINE_CHECK_VALID_FUNC\<close> passes.\<close>

fun errorMessage :: "typename \<Rightarrow> string" where
  "errorMessage uint8_t = ''uint8 literal out of range.''"
| "errorMessage uint16_t = ''uint16 literal out of range.''"
| "errorMessage uint32_t = ''uint32 literal out of range.''"
| "errorMessage uint64_t = ''uint64 literal can't be out of range!''"
| "errorMessage int8_t =
     ''int8 literal out of range. Note that the value of numeric_limits<int8>::min() is not supported''"
| "errorMessage int16_t =
     ''int16 literal out of range. Note that the value of numeric_limits<int16>::min() is not supported''"
| "errorMessage int32_t =
     ''int8 literal out of range. Note that the value of numeric_limits<int32>::min() is not supported''"
| "errorMessage int64_t =
     ''int64 literal out of range. Note that the value of numeric_limits<int64>::min() is not supported''"
| "errorMessage size_t = ''size_t literal out of range.''"

text \<open>
  \<^verbatim>\<open>checkValid_##typename_<kValue>()\<close>. In \<^verbatim>\<open>kValue <= max()\<close> both operands are
  non-negative and the usual arithmetic conversions take them to a type that holds
  both, so the comparison is the one of their mathematical values.
\<close>

definition checkValid :: "nat \<Rightarrow> typename \<Rightarrow> u64 \<Rightarrow> compile_error + cxx_int" where
  "checkValid size_t_bits typename' kValue =
     (if uint kValue \<le> value_of (numeric_limits_max size_t_bits typename')
      then Inr (static_cast size_t_bits typename' kValue)
      else Inl (static_assert_failed (errorMessage typename')))"

text \<open>The suffixes of lines 169 to 177 and the type each one is defined with.\<close>

datatype typesuffix =
  suffix_u8 | suffix_u16 | suffix_u32 | suffix_u64
  | suffix_i8 | suffix_i16 | suffix_i32 | suffix_i64 | suffix_z

fun operator_typename :: "typesuffix \<Rightarrow> typename" where
  "operator_typename suffix_u8 = uint8_t"
| "operator_typename suffix_u16 = uint16_t"
| "operator_typename suffix_u32 = uint32_t"
| "operator_typename suffix_u64 = uint64_t"
| "operator_typename suffix_i8 = int8_t"
| "operator_typename suffix_i16 = int16_t"
| "operator_typename suffix_i32 = int32_t"
| "operator_typename suffix_i64 = int64_t"
| "operator_typename suffix_z = size_t"

text \<open>
  \<^verbatim>\<open>operator"" typesuffix_<digits...>()\<close>: the template argument of
  \<^verbatim>\<open>checkValid\<close> has to be evaluated first, so an error in \<^verbatim>\<open>createValue\<close> is the
  error of the operator.
\<close>

definition literal_operator :: "nat \<Rightarrow> typesuffix \<Rightarrow> string \<Rightarrow> compile_error + cxx_int" where
  "literal_operator size_t_bits typesuffix' digits =
     (case createValue digits of
        Inl e \<Rightarrow> Inl e
      | Inr kValue \<Rightarrow> checkValid size_t_bits (operator_typename typesuffix') kValue)"

subsection \<open>Reference definitions\<close>

text \<open>The power by repeated multiplication, in 64-bit unsigned arithmetic.\<close>

fun naive_power :: "u64 \<Rightarrow> nat \<Rightarrow> u64" where
  "naive_power v 0 = 1"
| "naive_power v (Suc k) = v * naive_power v k"

text \<open>
  The positional sum of a digit sequence: digit \<open>i\<close> of \<open>n\<close> digits has the weight
  \<open>r ^ (n - 1 - i)\<close>; sum, products and powers are those of \<^typ>\<open>u64\<close>.
\<close>

definition positional_sum :: "u64 \<Rightarrow> string \<Rightarrow> u64" where
  "positional_sum r ds =
     (\<Sum>i < length ds. digitToValue (ds ! i) * r ^ (length ds - 1 - i))"

text \<open>
  The base a sequence's prefix selects and the characters that remain after the prefix,
  as the specification words it: \<^verbatim>\<open>0b\<close>/\<^verbatim>\<open>0B\<close> binary, \<^verbatim>\<open>0x\<close>/\<^verbatim>\<open>0X\<close>
  hexadecimal, another leading \<^verbatim>\<open>0\<close> octal, anything else decimal.
\<close>

definition prefix_base :: "string \<Rightarrow> nat" where
  "prefix_base s =
     (if take 2 s = ''0b'' \<or> take 2 s = ''0B'' then 2
      else if take 2 s = ''0x'' \<or> take 2 s = ''0X'' then 16
      else if take 1 s = ''0'' then 8
      else 10)"

definition prefix_digits :: "string \<Rightarrow> string" where
  "prefix_digits s =
     (if take 2 s = ''0b'' \<or> take 2 s = ''0B'' \<or> take 2 s = ''0x'' \<or> take 2 s = ''0X''
      then drop 2 s
      else if take 1 s = ''0'' then drop 1 s
      else s)"

text \<open>
  The integer literals of the language, without digit separators and without a
  standard suffix: the value of a digit character, the digits of a base, and the base
  and digits of a literal (\<^const>\<open>None\<close> when the sequence is not a literal).
\<close>

definition standard_digit :: "char \<Rightarrow> nat option" where
  "standard_digit =
     map_of
       [(CHR ''0'', 0), (CHR ''1'', 1), (CHR ''2'', 2), (CHR ''3'', 3), (CHR ''4'', 4),
        (CHR ''5'', 5), (CHR ''6'', 6), (CHR ''7'', 7), (CHR ''8'', 8), (CHR ''9'', 9),
        (CHR ''a'', 10), (CHR ''b'', 11), (CHR ''c'', 12), (CHR ''d'', 13), (CHR ''e'', 14),
        (CHR ''f'', 15),
        (CHR ''A'', 10), (CHR ''B'', 11), (CHR ''C'', 12), (CHR ''D'', 13), (CHR ''E'', 14),
        (CHR ''F'', 15)]"

definition is_digit_of :: "nat \<Rightarrow> char \<Rightarrow> bool" where
  "is_digit_of base c = (case standard_digit c of None \<Rightarrow> False | Some d \<Rightarrow> d < base)"

definition integer_literal :: "string \<Rightarrow> (nat \<times> string) option" where
  "integer_literal s =
     (case s of
        [] \<Rightarrow> None
      | c # cs \<Rightarrow>
          if c = CHR ''0'' then
            (case cs of
               [] \<Rightarrow> Some (8, [])
             | p # ds \<Rightarrow>
                 if p = CHR ''b'' \<or> p = CHR ''B'' then
                   (if ds \<noteq> [] \<and> list_all (is_digit_of 2) ds then Some (2, ds) else None)
                 else if p = CHR ''x'' \<or> p = CHR ''X'' then
                   (if ds \<noteq> [] \<and> list_all (is_digit_of 16) ds then Some (16, ds) else None)
                 else if list_all (is_digit_of 8) cs then Some (8, cs)
                 else None)
          else if list_all (is_digit_of 10) s then Some (10, s)
          else None)"

text \<open>
  The value the language gives a literal: its digits read in its base, most
  significant first, as a natural number.
\<close>

definition standard_value :: "nat \<Rightarrow> string \<Rightarrow> nat" where
  "standard_value base ds =
     foldl (\<lambda>acc c. acc * base + (case standard_digit c of None \<Rightarrow> 0 | Some d \<Rightarrow> d)) 0 ds"

definition literal_value :: "string \<Rightarrow> nat option" where
  "literal_value s =
     (case integer_literal s of
        None \<Rightarrow> None
      | Some (base, ds) \<Rightarrow> Some (standard_value base ds))"

text \<open>The signed suffixes, each with the width in bits of its type.\<close>

definition signed_suffixes :: "(typesuffix \<times> nat) list" where
  "signed_suffixes = [(suffix_i8, 8), (suffix_i16, 16), (suffix_i32, 32), (suffix_i64, 64)]"

text \<open>
  What each suffix asks for, as the header documents the suffixes (lines 23 to 25 and
  36 to 42): \<^verbatim>\<open>_uN\<close> the unsigned and \<^verbatim>\<open>_iN\<close> the signed type of \<open>N\<close> bits,
  \<^verbatim>\<open>_z\<close> the type \<^verbatim>\<open>size_t\<close>. \<open>requested_max\<close> is the largest value of that type,
  \<open>requested_constant\<close> the constant of value \<open>n\<close> in that type.
\<close>

fun requested_max :: "nat \<Rightarrow> typesuffix \<Rightarrow> nat" where
  "requested_max size_t_bits suffix_u8 = 2 ^ 8 - 1"
| "requested_max size_t_bits suffix_u16 = 2 ^ 16 - 1"
| "requested_max size_t_bits suffix_u32 = 2 ^ 32 - 1"
| "requested_max size_t_bits suffix_u64 = 2 ^ 64 - 1"
| "requested_max size_t_bits suffix_i8 = 2 ^ 7 - 1"
| "requested_max size_t_bits suffix_i16 = 2 ^ 15 - 1"
| "requested_max size_t_bits suffix_i32 = 2 ^ 31 - 1"
| "requested_max size_t_bits suffix_i64 = 2 ^ 63 - 1"
| "requested_max size_t_bits suffix_z = 2 ^ size_t_bits - 1"

fun requested_constant :: "typesuffix \<Rightarrow> nat \<Rightarrow> cxx_int" where
  "requested_constant suffix_u8 n = UInt8 (of_nat n)"
| "requested_constant suffix_u16 n = UInt16 (of_nat n)"
| "requested_constant suffix_u32 n = UInt32 (of_nat n)"
| "requested_constant suffix_u64 n = UInt64 (of_nat n)"
| "requested_constant suffix_i8 n = Int8 (of_nat n)"
| "requested_constant suffix_i16 n = Int16 (of_nat n)"
| "requested_constant suffix_i32 n = Int32 (of_nat n)"
| "requested_constant suffix_i64 n = Int64 (of_nat n)"
| "requested_constant suffix_z n = SizeT n"

section \<open>Properties\<close>

subsection \<open>Powers\<close>

lemma naive_power_eq: "naive_power v k = v ^ k"
  by (induction k) simp_all

lemma powerOf_pow: "powerOf v n = v ^ unat n"
proof (induction v n rule: powerOf.induct)
  case (1 v n)
  show ?case
  proof (cases "n = 0")
    case True
    then show ?thesis by (simp add: powerOf.simps)
  next
    case False
    have split: "unat n = 2 * unat (n div 2) + unat (n mod 2)"
      by (simp add: unat_div unat_mod)
    have ih: "powerOf v (n div 2) = v ^ unat (n div 2)"
      using 1 False by simp
    show ?thesis
    proof (cases "n mod 2 = 0")
      case True
      then show ?thesis
        using False ih split
        by (subst powerOf.simps) (simp add: sqrOf_def power_add mult_2)
    next
      case odd: False
      have "unat (n mod 2) < 2" by (simp add: unat_mod)
      moreover have "unat (n mod 2) \<noteq> 0" using odd by (simp add: unat_eq_0)
      ultimately have "unat (n mod 2) = 1" by linarith
      then show ?thesis
        using False ih split odd
        by (subst powerOf.simps) (simp add: sqrOf_def power_add mult_2)
    qed
  qed
qed

text \<open>
  C6. \<^const>\<open>powerOf\<close> is a total function (its recursion on \<open>n div 2\<close> is
  well-founded, which the termination proof above establishes), and for every value and
  every exponent its result is the power by repeated multiplication in 64-bit unsigned
  arithmetic; with exponent 0 the result is 1.
\<close>

theorem powerOf_refines_naive_power:
  "powerOf v n = naive_power v (unat n) \<and> powerOf v 0 = 1"
  by (simp add: powerOf_pow naive_power_eq)

subsection \<open>Digits\<close>

text \<open>
  C7. \<^const>\<open>digitToValue\<close> maps the characters 0 to 9 to the values 0 to 9, and the
  characters a to f and A to F to the values 10 to 15.
\<close>

theorem digitToValue_alphabet:
  "map digitToValue ''0123456789'' = [0, 1, 2, 3, 4, 5, 6, 7, 8, 9]
   \<and> map digitToValue ''abcdef'' = [10, 11, 12, 13, 14, 15]
   \<and> map digitToValue ''ABCDEF'' = [10, 11, 12, 13, 14, 15]"
  by (simp add: digitToValue_def)

subsection \<open>Positional accumulation\<close>

lemma positional_sum_Nil: "positional_sum r [] = 0"
  by (simp add: positional_sum_def)

lemma positional_sum_Cons:
  "positional_sum r (d # ds) = digitToValue d * r ^ length ds + positional_sum r ds"
  unfolding positional_sum_def
  by (simp add: sum.lessThan_Suc_shift del: sum.lessThan_Suc)

text \<open>The size of a pack, \<^verbatim>\<open>u64{sizeof...(kDigits)}\<close>, is exact below \<open>2 ^ 64\<close>.\<close>

lemma pack_size: "n < 2 ^ 64 \<Longrightarrow> unat (of_nat n :: u64) = n"
  by (simp add: unat_of_nat take_bit_nat_eq_self)

lemma ParseIntegerValue_Cons:
  "kDigits \<noteq> [] \<Longrightarrow>
   ParseIntegerValue kRadix (kDigit # kDigits) =
     (case ParseIntegerValue kRadix kDigits of
        Inl e \<Rightarrow> Inl e
      | Inr rest \<Rightarrow>
          Inr (digitToValue kDigit * powerOf kRadix (of_nat (length kDigits)) + rest))"
  by (cases kDigits) auto

lemma ParseIntegerValue_sum:
  "ds \<noteq> [] \<Longrightarrow> length ds < 2 ^ 64 \<Longrightarrow> ParseIntegerValue r ds = Inr (positional_sum r ds)"
proof (induction ds)
  case Nil
  then show ?case by simp
next
  case (Cons d ds)
  show ?case
  proof (cases "ds = []")
    case True
    then show ?thesis by (simp add: positional_sum_Cons positional_sum_Nil)
  next
    case False
    have len: "length ds < 2 ^ 64" using Cons.prems by simp
    have "ParseIntegerValue r ds = Inr (positional_sum r ds)"
      using Cons.IH False len by simp
    then show ?thesis
      using False len
      by (simp add: ParseIntegerValue_Cons positional_sum_Cons powerOf_pow pack_size)
  qed
qed

text \<open>
  C4. For every radix \<open>r\<close> and every non-empty digit sequence \<open>ds\<close> of \<open>n\<close> digits
  (a parameter pack, so \<open>n\<close> is below \<open>2 ^ 64\<close>), \<^const>\<open>ParseIntegerValue\<close> returns
  the sum over \<open>i\<close> of \<open>digitToValue (ds ! i) * r ^ (n - 1 - i)\<close>, computed in 64-bit
  unsigned arithmetic.
\<close>

theorem ParseIntegerValue_positional:
  assumes "ds \<noteq> []" and "length ds < 2 ^ 64"
  shows "ParseIntegerValue r ds =
         Inr (\<Sum>i < length ds. digitToValue (ds ! i) * r ^ (length ds - 1 - i))"
  using ParseIntegerValue_sum [OF assms] by (simp add: positional_sum_def)

theorem ParseIntegerValue_positional_witness:
  "''1f'' \<noteq> [] \<and> length ''1f'' < 2 ^ 64
   \<and> ParseIntegerValue 16 ''1f'' =
       Inr (\<Sum>i < length ''1f''. digitToValue (''1f'' ! i) * 16 ^ (length ''1f'' - 1 - i))
   \<and> ParseIntegerValue 16 ''1f'' = Inr 31"
  using ParseIntegerValue_positional [of "''1f''" 16]
  by (simp add: digitToValue_def lessThan_Suc powerOf_pow)

subsection \<open>Base detection\<close>

lemma createValue_prefix:
  "s \<noteq> ''0'' \<Longrightarrow>
   createValue s = ParseIntegerValue (of_nat (prefix_base s)) (prefix_digits s)"
proof (cases s)
  case Nil
  then show ?thesis by (simp add: createValue_def prefix_base_def prefix_digits_def)
next
  case (Cons c0 t)
  assume ne: "s \<noteq> ''0''"
  show ?thesis
  proof (cases t)
    case Nil
    with Cons ne show ?thesis
      by (simp add: createValue_def prefix_base_def prefix_digits_def)
  next
    case (Cons c1 rest)
    with \<open>s = c0 # t\<close> show ?thesis
      by (simp add: createValue_def prefix_base_def prefix_digits_def)
  qed
qed

lemma createValue_zero: "createValue ''0'' = Inr 0"
  by (simp add: createValue_def digitToValue_def)

lemma length_prefix_digits: "length (prefix_digits s) \<le> length s"
  by (simp add: prefix_digits_def)

lemma createValue_positional:
  assumes "prefix_digits s \<noteq> [] \<or> s = ''0''" and "length s < 2 ^ 64"
  shows "createValue s = Inr (positional_sum (of_nat (prefix_base s)) (prefix_digits s))"
proof (cases "s = ''0''")
  case True
  then show ?thesis
    by (simp add: createValue_zero prefix_digits_def positional_sum_Nil)
next
  case False
  with assms(1) have ds: "prefix_digits s \<noteq> []"
    by simp
  have "length (prefix_digits s) < 2 ^ 64"
    using length_prefix_digits [of s] assms(2) by linarith
  then show ?thesis
    using createValue_prefix [OF False] ds by (simp add: ParseIntegerValue_sum)
qed

text \<open>
  C3. The base of a character sequence is determined by its prefix: \<^const>\<open>createValue\<close>
  is \<^const>\<open>ParseIntegerValue\<close> at the radix the prefix selects (2 after \<^verbatim>\<open>0b\<close> or
  \<^verbatim>\<open>0B\<close>, 16 after \<^verbatim>\<open>0x\<close> or \<^verbatim>\<open>0X\<close>, 8 after another leading \<^verbatim>\<open>0\<close>, 10
  otherwise), applied to the characters after the prefix only. The sequence \<^verbatim>\<open>0\<close> on
  its own has no character after its leading \<^verbatim>\<open>0\<close>; its value is 0, the value of no
  digits. So for every sequence that has a digit after its prefix, and for \<^verbatim>\<open>0\<close>, the
  value is the positional sum, in the base of the prefix, of the characters after the
  prefix.
\<close>

theorem createValue_base_detection:
  "createValue s =
     (if s = ''0'' then Inr 0
      else ParseIntegerValue (of_nat (prefix_base s)) (prefix_digits s))
   \<and> ((prefix_digits s \<noteq> [] \<or> s = ''0'') \<and> length s < 2 ^ 64 \<longrightarrow>
        createValue s = Inr (positional_sum (of_nat (prefix_base s)) (prefix_digits s)))"
  using createValue_prefix [of s] createValue_zero createValue_positional [of s] by simp

theorem createValue_base_detection_witness:
  "createValue ''0b101'' = ParseIntegerValue 2 ''101''
   \<and> createValue ''0B101'' = ParseIntegerValue 2 ''101''
   \<and> createValue ''0101'' = ParseIntegerValue 8 ''101''
   \<and> createValue ''101'' = ParseIntegerValue 10 ''101''
   \<and> createValue ''0xfeF1'' = ParseIntegerValue 16 ''feF1''
   \<and> createValue ''0XfeF1'' = ParseIntegerValue 16 ''feF1''
   \<and> createValue ''7'' = ParseIntegerValue 10 ''7''
   \<and> createValue ''0'' = Inr 0
   \<and> createValue ''0'' = Inr (positional_sum 8 [])
   \<and> createValue ''0101'' = Inr (positional_sum 8 ''101'')
   \<and> createValue ''0101'' = Inr 65"
  using createValue_base_detection [of "''0b101''"] createValue_base_detection [of "''0B101''"]
    createValue_base_detection [of "''0101''"] createValue_base_detection [of "''101''"]
    createValue_base_detection [of "''0xfeF1''"] createValue_base_detection [of "''0XfeF1''"]
    createValue_base_detection [of "''7''"] createValue_base_detection [of "''0''"]
  by (simp add: prefix_base_def prefix_digits_def powerOf_pow digitToValue_def
      positional_sum_Cons positional_sum_Nil)

subsection \<open>Compile errors of the parser\<close>

lemma ParseIntegerValue_Inl:
  "ParseIntegerValue r ds = Inl e \<longleftrightarrow> ds = [] \<and> e = incomplete_type"
proof (induction ds)
  case Nil
  then show ?case by auto
next
  case (Cons d ds)
  then show ?case
    by (cases ds) (auto split: sum.splits)
qed

lemma createValue_Inl:
  "createValue s = Inl e \<Longrightarrow> e = incomplete_type"
  using createValue_prefix [of s] createValue_zero
  by (cases "s = ''0''") (simp_all add: ParseIntegerValue_Inl)

subsection \<open>The range check\<close>

lemma uint_u64_max: "uint (k :: u64) \<le> 18446744073709551615"
  using uint_lt2p [of k] by simp

text \<open>
  C10. For \<^verbatim>\<open>_u64\<close> the error branch of the range check is unreachable: the condition
  of the \<^verbatim>\<open>static_assert\<close> holds for every 64-bit value, so \<^verbatim>\<open>checkValid_uint64_t\<close>
  accepts every value, the operator returns whatever value the parser produced, and its
  \<^verbatim>\<open>static_assert\<close> never fails.
\<close>

theorem checkValid_uint64_t_accepts:
  "checkValid size_t_bits uint64_t kValue = Inr (UInt64 kValue)
   \<and> literal_operator size_t_bits suffix_u64 digits = map_sum id UInt64 (createValue digits)
   \<and> literal_operator size_t_bits suffix_u64 digits \<noteq> Inl (static_assert_failed msg)"
  using createValue_Inl [of digits]
  by (cases "createValue digits") (auto simp add: checkValid_def literal_operator_def uint_u64_max)

text \<open>
  C8. The literal \<^verbatim>\<open>256_u8\<close> does not compile (the \<^verbatim>\<open>static_assert\<close> of
  \<^verbatim>\<open>checkValid_uint8_t\<close> fails); the literal \<^verbatim>\<open>100_u8\<close> is the value 100 of type
  \<^verbatim>\<open>uint8_t\<close>.
\<close>

theorem u8_literals_256_and_100:
  "literal_operator size_t_bits suffix_u8 ''256'' =
     Inl (static_assert_failed ''uint8 literal out of range.'')
   \<and> literal_operator size_t_bits suffix_u8 ''100'' = Inr (UInt8 100)
   \<and> type_of (UInt8 100) = uint8_t \<and> value_of (UInt8 100) = 100"
  by (simp add: literal_operator_def createValue_def powerOf_pow digitToValue_def checkValid_def)

subsection \<open>Integer literals and the accumulator\<close>

lemma digitToValue_standard:
  "standard_digit c = Some d \<Longrightarrow> digitToValue c = of_nat d"
  unfolding standard_digit_def
  by (auto simp add: digitToValue_def split: if_splits)

lemma standard_value_shift:
  "foldl (\<lambda>acc c. acc * base + f c) a ds =
   a * base ^ length ds + foldl (\<lambda>acc c. acc * base + f c) (0 :: nat) ds"
proof (induction ds arbitrary: a)
  case Nil
  then show ?case by simp
next
  case (Cons c ds)
  have "foldl (\<lambda>acc c. acc * base + f c) a (c # ds)
        = foldl (\<lambda>acc c. acc * base + f c) (a * base + f c) ds"
    by simp
  also have "\<dots> = (a * base + f c) * base ^ length ds
                    + foldl (\<lambda>acc c. acc * base + f c) 0 ds"
    by (rule Cons.IH)
  also have "\<dots> = a * base ^ length (c # ds)
                    + (f c * base ^ length ds + foldl (\<lambda>acc c. acc * base + f c) 0 ds)"
    by (simp add: algebra_simps)
  also have "f c * base ^ length ds + foldl (\<lambda>acc c. acc * base + f c) 0 ds
             = foldl (\<lambda>acc c. acc * base + f c) (f c) ds"
    by (rule Cons.IH [symmetric])
  finally show ?case by simp
qed

lemma standard_value_Nil: "standard_value base [] = 0"
  by (simp add: standard_value_def)

lemma standard_value_Cons:
  "standard_value base (c # ds) =
   (case standard_digit c of None \<Rightarrow> 0 | Some d \<Rightarrow> d) * base ^ length ds
   + standard_value base ds"
proof -
  let ?f = "\<lambda>c. case standard_digit c of None \<Rightarrow> 0 | Some d \<Rightarrow> d"
  have "standard_value base (c # ds) = foldl (\<lambda>acc c. acc * base + ?f c) (?f c) ds"
    by (simp add: standard_value_def)
  also have "\<dots> = ?f c * base ^ length ds + foldl (\<lambda>acc c. acc * base + ?f c) 0 ds"
    by (rule standard_value_shift)
  finally show ?thesis by (simp add: standard_value_def)
qed

lemma positional_sum_standard:
  "list_all (is_digit_of base) ds \<Longrightarrow>
   positional_sum (of_nat base) ds = of_nat (standard_value base ds)"
proof (induction ds)
  case Nil
  then show ?case by (simp add: positional_sum_Nil standard_value_Nil)
next
  case (Cons c ds)
  from Cons.prems obtain d where d: "standard_digit c = Some d"
    by (auto simp add: is_digit_of_def split: option.splits)
  have "positional_sum (of_nat base) ds = of_nat (standard_value base ds)"
    using Cons by simp
  then show ?case
    by (simp add: positional_sum_Cons standard_value_Cons d digitToValue_standard)
qed

lemma integer_literal_zero_prefix:
  "integer_literal (CHR ''0'' # p # rest) =
     (if p = CHR ''b'' \<or> p = CHR ''B'' then
        (if rest \<noteq> [] \<and> list_all (is_digit_of 2) rest then Some (2, rest) else None)
      else if p = CHR ''x'' \<or> p = CHR ''X'' then
        (if rest \<noteq> [] \<and> list_all (is_digit_of 16) rest then Some (16, rest) else None)
      else if list_all (is_digit_of 8) (p # rest) then Some (8, p # rest)
      else None)"
  by (simp add: integer_literal_def)

lemma integer_literal_prefix_zero:
  assumes "integer_literal (CHR ''0'' # p # rest) = Some (base, ds)"
  shows "prefix_base (CHR ''0'' # p # rest) = base
         \<and> prefix_digits (CHR ''0'' # p # rest) = ds \<and> ds \<noteq> []
         \<and> list_all (is_digit_of base) ds \<and> length ds \<le> length (CHR ''0'' # p # rest)"
proof -
  consider (bin) "p = CHR ''b'' \<or> p = CHR ''B''"
    | (hex) "p = CHR ''x'' \<or> p = CHR ''X''"
    | (oct) "p \<noteq> CHR ''b''" "p \<noteq> CHR ''B''" "p \<noteq> CHR ''x''" "p \<noteq> CHR ''X''"
    by blast
  then show ?thesis
  proof cases
    case bin
    with assms have "rest \<noteq> []" "list_all (is_digit_of 2) rest" "base = 2" "ds = rest"
      by (auto simp add: integer_literal_zero_prefix split: if_splits)
    with bin show ?thesis
      by (auto simp add: prefix_base_def prefix_digits_def)
  next
    case hex
    with assms have "rest \<noteq> []" "list_all (is_digit_of 16) rest" "base = 16" "ds = rest"
      by (auto simp add: integer_literal_zero_prefix split: if_splits)
    with hex show ?thesis
      by (auto simp add: prefix_base_def prefix_digits_def)
  next
    case oct
    with assms have "list_all (is_digit_of 8) (p # rest)" "base = 8" "ds = p # rest"
      by (auto simp add: integer_literal_zero_prefix split: if_splits)
    with oct show ?thesis
      by (simp add: prefix_base_def prefix_digits_def)
  qed
qed

lemma integer_literal_prefix_decimal:
  assumes "integer_literal (c # cs) = Some (base, ds)" and "c \<noteq> CHR ''0''"
  shows "prefix_base (c # cs) = base \<and> prefix_digits (c # cs) = ds \<and> ds \<noteq> []
         \<and> list_all (is_digit_of base) ds \<and> length ds \<le> length (c # cs)"
proof -
  from assms have "base = 10" "ds = c # cs" "list_all (is_digit_of 10) (c # cs)"
    by (auto simp add: integer_literal_def split: if_splits)
  then show ?thesis
    using assms(2) by (cases cs) (simp_all add: prefix_base_def prefix_digits_def)
qed

lemma integer_literal_prefix:
  assumes "integer_literal s = Some (base, ds)" and "s \<noteq> ''0''"
  shows "prefix_base s = base \<and> prefix_digits s = ds \<and> ds \<noteq> []
         \<and> list_all (is_digit_of base) ds \<and> length ds \<le> length s"
proof (cases s)
  case Nil
  with assms show ?thesis by (simp add: integer_literal_def)
next
  case s: (Cons c cs)
  show ?thesis
  proof (cases "c = CHR ''0''")
    case False
    with s assms show ?thesis
      using integer_literal_prefix_decimal [of c cs base ds] by simp
  next
    case True
    with s assms obtain p rest where "cs = p # rest"
      by (cases cs) auto
    with s True assms show ?thesis
      using integer_literal_prefix_zero [of p rest base ds] by simp
  qed
qed

lemma literal_value_zero: "literal_value ''0'' = Some 0"
  by (simp add: literal_value_def integer_literal_def standard_value_def)

lemma createValue_literal:
  assumes "literal_value s = Some n" and "length s < 2 ^ 64"
  shows "createValue s = Inr (of_nat n)"
proof (cases "s = ''0''")
  case True
  then show ?thesis
    using assms(1) by (simp add: literal_value_zero createValue_zero)
next
  case False
  from assms(1) obtain base ds where
    lit: "integer_literal s = Some (base, ds)" and n: "n = standard_value base ds"
    by (auto simp add: literal_value_def split: option.splits)
  note p = integer_literal_prefix [OF lit False]
  have len: "length ds < 2 ^ 64"
    using p assms(2) by linarith
  have "createValue s = ParseIntegerValue (of_nat base) ds"
    using createValue_prefix [OF False] p by simp
  also have "\<dots> = Inr (positional_sum (of_nat base) ds)"
    using p len by (simp add: ParseIntegerValue_sum)
  also have "\<dots> = Inr (of_nat n)"
    using p n by (simp add: positional_sum_standard)
  finally show ?thesis .
qed


subsection \<open>Conversion to the target type\<close>

lemma ucast_small_uint:
  "uint (k :: u64) < 2 ^ LENGTH('a) \<Longrightarrow> uint (ucast k :: 'a::len word) = uint k"
  by (simp add: take_bit_int_def unsigned_ucast_eq)

lemma ucast_small_sint:
  assumes "uint (k :: u64) < 2 ^ (LENGTH('a) - 1)"
  shows "sint (ucast k :: 'a::len word) = uint k"
proof -
  have "(2 :: int) ^ (LENGTH('a) - 1) \<le> 2 ^ LENGTH('a)"
    by (rule power_increasing) simp_all
  then have "uint (ucast k :: 'a word) = uint k"
    using assms by (intro ucast_small_uint) linarith
  moreover have "- (2 ^ (LENGTH('a) - 1)) \<le> uint k"
    by (rule order_trans [of _ 0]) simp_all
  ultimately show ?thesis
    using assms by (simp add: sint_uint signed_take_bit_int_eq_self)
qed

lemma u64_small_sint:
  "uint (k :: u64) < 2 ^ 63 \<Longrightarrow> sint k = uint k"
  using ucast_small_sint [where 'a = 64, of k] by simp

lemma size_t_small:
  assumes "uint (k :: u64) < 2 ^ b"
  shows "int (unat k mod 2 ^ b) = uint k"
proof -
  have "int (unat k) < int (2 ^ b)"
    using assms by simp
  then have "unat k < 2 ^ b"
    by (simp only: of_nat_less_iff)
  then show ?thesis by simp
qed

lemma value_of_static_cast:
  assumes "uint kValue \<le> value_of (numeric_limits_max b T)"
  shows "value_of (static_cast b T kValue) = uint kValue"
  using assms
  by (cases T) (simp_all add: ucast_small_uint ucast_small_sint u64_small_sint size_t_small)

lemma type_of_static_cast: "type_of (static_cast b T kValue) = T"
  by (cases T) simp_all

lemma checkValid_accepts:
  "uint kValue \<le> value_of (numeric_limits_max b T) \<Longrightarrow>
   checkValid b T kValue = Inr (static_cast b T kValue)"
  by (simp add: checkValid_def)

lemma uint_of_nat_u64: "uint (of_nat n :: u64) = int (n mod 2 ^ 64)"
proof -
  have "uint (of_nat n :: u64) = int (unat (of_nat n :: u64))"
    by simp
  also have "\<dots> = int (n mod 2 ^ 64)"
    by (simp only: unat_of_nat) simp
  finally show ?thesis .
qed

lemma numeric_limits_max_u64:
  assumes "b \<le> 64"
  shows "value_of (numeric_limits_max b T) < 2 ^ 64"
proof (cases T)
  case size_t
  have "(2 :: nat) ^ b \<le> 2 ^ 64"
    using assms by (intro power_increasing) simp_all
  moreover have "0 < (2 :: nat) ^ b"
    by simp
  ultimately have "2 ^ b - 1 < (2 :: nat) ^ 64"
    by linarith
  then have "int (2 ^ b - 1) < int (2 ^ 64)"
    by (simp only: of_nat_less_iff)
  then show ?thesis using size_t by simp
qed simp_all

subsection \<open>Signed targets\<close>

lemma signed_max:
  "(sfx, N) \<in> set signed_suffixes \<Longrightarrow>
   value_of (numeric_limits_max b (operator_typename sfx)) = 2 ^ (N - 1) - 1"
  by (auto simp add: signed_suffixes_def)

lemma signed_min:
  "(sfx, N) \<in> set signed_suffixes \<Longrightarrow>
   value_of (static_cast b (operator_typename sfx) (2 ^ (N - 1))) = - (2 ^ (N - 1))"
  by (auto simp add: signed_suffixes_def)

lemma uint_signed_bound:
  "(sfx, N) \<in> set signed_suffixes \<Longrightarrow> uint (2 ^ (N - 1) :: u64) = 2 ^ (N - 1)"
  by (auto simp add: signed_suffixes_def)

text \<open>
  The range check of a signed type of \<open>N\<close> bits accepts exactly the values 0 to
  \<open>2 ^ (N - 1) - 1\<close> of the accumulator and returns an accepted value unchanged in
  the signed type. The value \<open>2 ^ (N - 1)\<close> is rejected by the \<^verbatim>\<open>static_assert\<close>,
  although its negative is a value of the type (it is what the bit pattern
  \<open>2 ^ (N - 1)\<close> denotes there).
\<close>

lemma signed_suffix_range:
  assumes "(sfx, N) \<in> set signed_suffixes"
  shows "((\<exists>v. checkValid b (operator_typename sfx) kValue = Inr v)
            \<longleftrightarrow> uint kValue \<le> 2 ^ (N - 1) - 1)
    \<and> (uint kValue \<le> 2 ^ (N - 1) - 1 \<longrightarrow>
         checkValid b (operator_typename sfx) kValue =
           Inr (static_cast b (operator_typename sfx) kValue)
         \<and> type_of (static_cast b (operator_typename sfx) kValue) = operator_typename sfx
         \<and> value_of (static_cast b (operator_typename sfx) kValue) = uint kValue)
    \<and> checkValid b (operator_typename sfx) (2 ^ (N - 1)) =
         Inl (static_assert_failed (errorMessage (operator_typename sfx)))
    \<and> type_of (static_cast b (operator_typename sfx) (2 ^ (N - 1))) = operator_typename sfx
    \<and> value_of (static_cast b (operator_typename sfx) (2 ^ (N - 1))) = - (2 ^ (N - 1))
    \<and> (createValue digits = Inr kValue \<longrightarrow>
         ((\<exists>v. literal_operator b sfx digits = Inr v)
            \<longleftrightarrow> uint kValue \<le> 2 ^ (N - 1) - 1))"
proof -
  let ?T = "operator_typename sfx"
  have m: "value_of (numeric_limits_max b ?T) = 2 ^ (N - 1) - 1"
    using assms by (rule signed_max)
  have acc: "(\<exists>v. checkValid b ?T kValue = Inr v) \<longleftrightarrow> uint kValue \<le> 2 ^ (N - 1) - 1"
    by (simp add: checkValid_def m)
  have val: "uint kValue \<le> 2 ^ (N - 1) - 1 \<longrightarrow>
         checkValid b ?T kValue = Inr (static_cast b ?T kValue)
         \<and> type_of (static_cast b ?T kValue) = ?T
         \<and> value_of (static_cast b ?T kValue) = uint kValue"
    using m by (simp add: checkValid_accepts value_of_static_cast type_of_static_cast)
  have rej: "checkValid b ?T (2 ^ (N - 1)) = Inl (static_assert_failed (errorMessage ?T))"
    using uint_signed_bound [OF assms] by (simp add: checkValid_def m)
  have op: "createValue digits = Inr kValue \<longrightarrow>
         ((\<exists>v. literal_operator b sfx digits = Inr v) \<longleftrightarrow> uint kValue \<le> 2 ^ (N - 1) - 1)"
    using acc by (simp add: literal_operator_def)
  show ?thesis
    using acc val rej op signed_min [OF assms] by (simp only: type_of_static_cast simp_thms)
qed

subsection \<open>The literal operators\<close>

lemma literal_operator_reduced:
  assumes "literal_value s = Some n" and "length s < 2 ^ 64"
    and "int (n mod 2 ^ 64) \<le> value_of (numeric_limits_max b (operator_typename sfx))"
  shows "\<exists>v. literal_operator b sfx s = Inr v \<and> type_of v = operator_typename sfx
             \<and> value_of v = int (n mod 2 ^ 64)"
proof -
  let ?T = "operator_typename sfx" and ?k = "of_nat n :: u64"
  have c: "createValue s = Inr ?k"
    using assms(1,2) by (rule createValue_literal)
  have le: "uint ?k \<le> value_of (numeric_limits_max b ?T)"
    using assms(3) by (simp only: uint_of_nat_u64)
  have "literal_operator b sfx s = Inr (static_cast b ?T ?k)"
    using c le by (simp add: literal_operator_def checkValid_accepts)
  moreover have "value_of (static_cast b ?T ?k) = int (n mod 2 ^ 64)"
    using value_of_static_cast [OF le] by (simp only: uint_of_nat_u64)
  ultimately show ?thesis
    by (simp add: type_of_static_cast)
qed

text \<open>
  What an operator does with a literal: the range check sees the value of the literal
  modulo \<open>2 ^ 64\<close>, and the only compile error is the \<^verbatim>\<open>static_assert\<close> of the
  target type.
\<close>

lemma literal_operator_cases:
  assumes "literal_value s = Some n" and "length s < 2 ^ 64"
  shows "literal_operator b sfx s =
     (if int (n mod 2 ^ 64) \<le> value_of (numeric_limits_max b (operator_typename sfx))
      then Inr (static_cast b (operator_typename sfx) (of_nat n))
      else Inl (static_assert_failed (errorMessage (operator_typename sfx))))"
  using createValue_literal [OF assms]
  by (simp add: literal_operator_def checkValid_def uint_of_nat_u64)

lemma literal_value_2_64: "literal_value ''18446744073709551616'' = Some 18446744073709551616"
  by (simp add: literal_value_def integer_literal_def is_digit_of_def standard_digit_def
      standard_value_def)

lemma literal_value_feF1: "literal_value ''0xfeF1'' = Some 65265"
  by (simp add: literal_value_def integer_literal_def is_digit_of_def standard_digit_def
      standard_value_def)

subsection \<open>The self-test harness\<close>

text \<open>
  The literals of \<^verbatim>\<open>TestMain.cpp\<close>: those its \<^verbatim>\<open>static_assert\<close>s compare with the
  standard literals (the \<^verbatim>\<open>_z\<close> ones on a platform whose \<^verbatim>\<open>size_t\<close> has 64 bits),
  and those it lists, commented out, as compile errors.
\<close>

lemma TestMain_accepted:
  "map (literal_operator size_t_bits suffix_u64) [''0b101'', ''0101'', ''101'', ''0xfeF1'']
     = map (Inr \<circ> UInt64) [0b101, 65, 101, 0xfeF1]"
  "map (literal_operator size_t_bits suffix_u32) [''0b101'', ''0101'', ''101'', ''0xfeF1'']
     = map (Inr \<circ> UInt32) [0b101, 65, 101, 0xfeF1]"
  "map (literal_operator size_t_bits suffix_i64) [''0b101'', ''0101'', ''101'', ''0xfeF1'']
     = map (Inr \<circ> Int64) [0b101, 65, 101, 0xfeF1]"
  "map (literal_operator size_t_bits suffix_i32) [''0b101'', ''0101'', ''101'', ''0xfeF1'']
     = map (Inr \<circ> Int32) [0b101, 65, 101, 0xfeF1]"
  "map (literal_operator 64 suffix_z) [''0b101'', ''0101'', ''101'', ''0xfeF1'']
     = map (Inr \<circ> SizeT) [0b101, 65, 101, 0xfeF1]"
  "literal_operator size_t_bits suffix_u8 ''100'' = Inr (UInt8 100)"
  "literal_operator size_t_bits suffix_u16 ''100'' = Inr (UInt16 100)"
  "literal_operator size_t_bits suffix_i32 ''0b1110101'' = Inr (Int32 0b1110101)"
  "literal_operator size_t_bits suffix_u64 ''0xffeeffdd0012345'' = Inr (UInt64 0xffeeffdd0012345)"
  "literal_operator size_t_bits suffix_u32 ''07766554433'' = Inr (UInt32 1071307035)"
  by (simp_all add: literal_operator_def createValue_def powerOf_pow digitToValue_def
      checkValid_def)

lemma TestMain_rejected:
  "map (literal_operator size_t_bits suffix_u8) [''0b111111111'', ''111111'', ''257'', ''0xff01'']
     = map (Inl \<circ> static_assert_failed)
         [''uint8 literal out of range.'', ''uint8 literal out of range.'',
          ''uint8 literal out of range.'', ''uint8 literal out of range.'']"
  "literal_operator size_t_bits suffix_u32 ''0xffff12345''
     = Inl (static_assert_failed ''uint32 literal out of range.'')"
  by (simp_all add: literal_operator_def createValue_def powerOf_pow digitToValue_def
      checkValid_def)

lemma requested_max_limit:
  "int (requested_max b sfx) = value_of (numeric_limits_max b (operator_typename sfx))"
  by (cases sfx) simp_all

lemma ucast_of_nat_u64:
  "n < 2 ^ 64 \<Longrightarrow> (ucast (of_nat n :: u64) :: 'a::len word) = of_nat n"
  by (simp add: unsigned_of_nat take_bit_nat_eq_self)

lemma requested_max_u64:
  assumes "b \<le> 64" and "n \<le> requested_max b sfx"
  shows "n < 2 ^ 64"
proof -
  have "int n \<le> value_of (numeric_limits_max b (operator_typename sfx))"
    using assms(2) by (simp only: requested_max_limit [symmetric] of_nat_le_iff)
  then have "int n < 2 ^ 64"
    using numeric_limits_max_u64 [OF assms(1), of "operator_typename sfx"] by linarith
  then show ?thesis
    by (simp only: of_nat_less_numeral_power_cancel_iff)
qed

lemma static_cast_requested:
  assumes "n < 2 ^ 64" and "n \<le> requested_max b sfx"
  shows "static_cast b (operator_typename sfx) (of_nat n) = requested_constant sfx n"
proof (cases sfx)
  case suffix_z
  have "n \<le> 2 ^ b - 1"
    using assms(2) suffix_z by simp
  moreover have "0 < (2 :: nat) ^ b"
    by simp
  ultimately have "n < 2 ^ b"
    by linarith
  then show ?thesis
    using suffix_z assms(1) by (simp add: pack_size)
qed (simp_all add: ucast_of_nat_u64 [OF assms(1)])

text \<open>
  C1. For every integer literal (binary, octal, decimal or hexadecimal) whose value
  \<open>n\<close> is representable in the type its suffix asks for, and for each of the nine
  suffixes, the operator returns the constant of exactly that type (\<^verbatim>\<open>uint8_t\<close> for
  \<^verbatim>\<open>_u8\<close>, \<^verbatim>\<open>int8_t\<close> for \<^verbatim>\<open>_i8\<close>, and so on, \<^verbatim>\<open>size_t\<close> for \<^verbatim>\<open>_z\<close>)
  whose value is \<open>n\<close>, the value the language gives the literal. (A parameter pack has
  fewer than \<open>2 ^ 64\<close> characters, and \<^verbatim>\<open>size_t\<close> is taken to be no wider than the
  64-bit accumulator.)
\<close>

theorem literal_operator_value_and_type:
  assumes "literal_value s = Some n" and "length s < 2 ^ 64" and "size_t_bits \<le> 64"
    and "n \<le> requested_max size_t_bits sfx"
  shows "literal_operator size_t_bits sfx s = Inr (requested_constant sfx n)
         \<and> value_of (requested_constant sfx n) = int n"
proof -
  let ?T = "operator_typename sfx"
  have n: "n < 2 ^ 64"
    using assms(3,4) by (rule requested_max_u64)
  then have m: "n mod 2 ^ 64 = n"
    by simp
  have le: "int (n mod 2 ^ 64) \<le> value_of (numeric_limits_max size_t_bits ?T)"
    using assms(4) by (simp only: m requested_max_limit [symmetric] of_nat_le_iff)
  have op: "literal_operator size_t_bits sfx s = Inr (static_cast size_t_bits ?T (of_nat n))"
    using literal_operator_cases [OF assms(1,2), of size_t_bits sfx] le by simp
  have c: "static_cast size_t_bits ?T (of_nat n) = requested_constant sfx n"
    using n assms(4) by (rule static_cast_requested)
  have "uint (of_nat n :: u64) \<le> value_of (numeric_limits_max size_t_bits ?T)"
    using le by (simp only: uint_of_nat_u64)
  then have "value_of (static_cast size_t_bits ?T (of_nat n)) = uint (of_nat n :: u64)"
    by (rule value_of_static_cast)
  then have "value_of (requested_constant sfx n) = int n"
    by (simp only: c uint_of_nat_u64 m)
  then show ?thesis
    using op c by simp
qed

theorem literal_operator_value_and_type_witness:
  "literal_value ''0xfeF1'' = Some 65265 \<and> length ''0xfeF1'' < 2 ^ 64 \<and> (64 :: nat) \<le> 64
   \<and> 65265 \<le> requested_max 64 suffix_i32
   \<and> literal_operator 64 suffix_i32 ''0xfeF1'' = Inr (Int32 65265)
   \<and> value_of (Int32 65265) = 65265
   \<and> literal_value ''100'' = Some 100 \<and> length ''100'' < 2 ^ 64
   \<and> 100 \<le> requested_max 64 suffix_u8
   \<and> literal_operator 64 suffix_u8 ''100'' = Inr (UInt8 100)"
proof -
  have h1: "literal_value ''0xfeF1'' = Some 65265"
    by (rule literal_value_feF1)
  have h2: "length ''0xfeF1'' < 2 ^ 64"
    by simp
  have h3: "(64 :: nat) \<le> 64"
    by simp
  have h4: "65265 \<le> requested_max 64 suffix_i32"
    by simp
  have g1: "literal_value ''100'' = Some 100"
    by (simp add: literal_value_def integer_literal_def is_digit_of_def standard_digit_def
        standard_value_def)
  have g2: "length ''100'' < 2 ^ 64"
    by simp
  have g4: "100 \<le> requested_max 64 suffix_u8"
    by simp
  show ?thesis
    using h1 h2 h3 h4 g1 g2 g4 literal_operator_value_and_type [OF h1 h2 h3 h4]
      literal_operator_value_and_type [OF g1 g2 h3 g4]
    by simp
qed

text \<open>
  C5. The accumulation wraps around in one 64-bit unsigned accumulator: for every
  integer literal, whatever its value \<open>n\<close>, the parser does not fail and yields
  \<open>n\<close> modulo \<open>2 ^ 64\<close>; each operator accepts the literal, with that reduced value, as
  soon as the reduced value passes its range check. The witness is the literal of value
  \<open>2 ^ 64\<close>, which all nine operators accept as 0.
\<close>

theorem accumulator_wraps:
  assumes "literal_value s = Some n" and "length s < 2 ^ 64"
  shows "createValue s = Inr (of_nat n)
     \<and> uint (of_nat n :: u64) = int (n mod 2 ^ 64)
     \<and> (int (n mod 2 ^ 64) \<le> value_of (numeric_limits_max size_t_bits (operator_typename sfx)) \<longrightarrow>
          (\<exists>v. literal_operator size_t_bits sfx s = Inr v
               \<and> type_of v = operator_typename sfx \<and> value_of v = int (n mod 2 ^ 64)))"
  using createValue_literal [OF assms] literal_operator_reduced [OF assms, of size_t_bits sfx]
  by (simp add: uint_of_nat_u64)

theorem accumulator_wraps_witness:
  "literal_value ''18446744073709551616'' = Some 18446744073709551616
   \<and> length ''18446744073709551616'' < 2 ^ 64
   \<and> createValue ''18446744073709551616'' = Inr 0
   \<and> uint (of_nat 18446744073709551616 :: u64) = 0
   \<and> map (\<lambda>sfx. literal_operator 64 sfx ''18446744073709551616'')
        [suffix_u8, suffix_u16, suffix_u32, suffix_u64,
         suffix_i8, suffix_i16, suffix_i32, suffix_i64, suffix_z] =
      [Inr (UInt8 0), Inr (UInt16 0), Inr (UInt32 0), Inr (UInt64 0),
       Inr (Int8 0), Inr (Int16 0), Inr (Int32 0), Inr (Int64 0), Inr (SizeT 0)]"
proof -
  have h1: "literal_value ''18446744073709551616'' = Some 18446744073709551616"
    by (rule literal_value_2_64)
  have h2: "length ''18446744073709551616'' < 2 ^ 64"
    by simp
  have c: "createValue ''18446744073709551616'' = Inr 0"
    using accumulator_wraps [OF h1 h2, of 64 suffix_u8] by simp
  show ?thesis
    using h1 h2 c by (simp add: literal_operator_def checkValid_def)
qed

text \<open>
  C2. Evaluation at the literal \<^verbatim>\<open>18446744073709551616_u8\<close>: the value of the literal
  is \<open>2 ^ 64\<close>, which exceeds the maximum 255 of \<^verbatim>\<open>uint8_t\<close>, and the operator
  nevertheless compiles it, to the value 0.
\<close>

theorem literal_2_64_accepted_as_u8:
  "literal_value ''18446744073709551616'' = Some 18446744073709551616
   \<and> value_of (numeric_limits_max size_t_bits uint8_t) = 255
   \<and> literal_operator size_t_bits suffix_u8 ''18446744073709551616'' = Inr (UInt8 0)"
  by (simp add: literal_value_2_64 literal_operator_def createValue_def powerOf_pow
      digitToValue_def checkValid_def)

text \<open>
  For a literal whose value is below \<open>2 ^ 64\<close>, a signed operator accepts it exactly
  when the value is at most \<open>2 ^ (N - 1) - 1\<close>.
\<close>

lemma signed_suffix_literals:
  assumes "(sfx, N) \<in> set signed_suffixes"
    and "literal_value s = Some n" and "length s < 2 ^ 64" and "n < 2 ^ 64"
  shows "(\<exists>v. literal_operator b sfx s = Inr v) \<longleftrightarrow> n \<le> 2 ^ (N - 1) - 1"
proof -
  have m: "n mod 2 ^ 64 = n"
    using assms(4) by simp
  have "value_of (numeric_limits_max b (operator_typename sfx)) = int (2 ^ (N - 1) - 1)"
    using assms(1) by (auto simp add: signed_suffixes_def)
  then have "int (n mod 2 ^ 64) \<le> value_of (numeric_limits_max b (operator_typename sfx))
             \<longleftrightarrow> n \<le> 2 ^ (N - 1) - 1"
    by (simp only: m of_nat_le_iff)
  then show ?thesis
    by (simp add: literal_operator_cases [OF assms(2,3), of b sfx])
qed

lemma literal_value_2_64_plus_127:
  "literal_value ''0x1000000000000007f'' = Some 18446744073709551743"
  by (simp add: literal_value_def integer_literal_def is_digit_of_def standard_digit_def
      standard_value_def)

text \<open>
  C9. Evaluation at the literal \<^verbatim>\<open>0x1000000000000007f_i8\<close>: the value of the literal
  is \<open>2 ^ 64 + 127\<close>, which is not among the values 0 to \<open>2 ^ (8 - 1) - 1\<close>, and the
  operator nevertheless compiles it, to the \<^verbatim>\<open>int8_t\<close> value 127. The literal
  \<^verbatim>\<open>128_i8\<close> is rejected, as the claim says.
\<close>

theorem literal_2_64_plus_127_accepted_as_i8:
  "literal_value ''0x1000000000000007f'' = Some (2 ^ 64 + 127)
   \<and> value_of (numeric_limits_max size_t_bits int8_t) = 2 ^ (8 - 1) - 1
   \<and> literal_operator size_t_bits suffix_i8 ''0x1000000000000007f'' = Inr (Int8 127)
   \<and> literal_operator size_t_bits suffix_i8 ''128'' =
       Inl (static_assert_failed (errorMessage int8_t))"
  by (simp add: literal_value_2_64_plus_127 literal_operator_def createValue_def powerOf_pow
      digitToValue_def checkValid_def)

end
